theory Spec2Isabelle
  imports Complex_Main "HOL-Library.Multiset" "HOL-Library.Product_Lexorder"
begin

section \<open>Numbers, rows and the monthly normalizer\<close>

text \<open>
  The application computes with JavaScript numbers.  In the first model they are
  \<^typ>\<open>real\<close> numbers with exact sums, products and quotients; the second model, further
  down, rounds every operation to binary64 and is the one used where rounding decides a
  comparison or an equality.  A division whose divisor the code allows to be zero is
  written out with its JavaScript outcome (\<open>NaN\<close> or an infinity) as a separate case.
\<close>

text \<open>
  \<open>calculateMonthlyAmount\<close> (Income.tsx, lines 150-157, and the copies in the income
  summary cards).  The frequency is a plain string; the \<open>switch\<close> falls to \<open>default\<close>
  for every string other than the three named ones.
\<close>

definition calculateMonthlyAmount :: "real \<Rightarrow> string \<Rightarrow> real" where
  "calculateMonthlyAmount amount frequency =
     (if frequency = ''weekly'' then amount * 4.33
      else if frequency = ''biweekly'' then amount * 2.17
      else if frequency = ''annual'' then amount / 12
      else amount)"

text \<open>\<open>totalMonthlyIncome\<close>: the \<open>reduce\<close> over the income rows (amount, frequency).\<close>

definition totalMonthlyIncome :: "(real \<times> string) list \<Rightarrow> real" where
  "totalMonthlyIncome incomes =
     foldl (\<lambda>sum item. sum + calculateMonthlyAmount (fst item) (snd item)) 0 incomes"

section \<open>The spending-habits analysis\<close>

text \<open>
  The rows returned by the expense queries.  \<open>expense_categories\<close> is the joined
  category, absent when the reference does not resolve.  The three date fields stand for
  what the code reads from \<open>new Date(expense_date)\<close>: \<open>getDate()\<close> (day of the month),
  \<open>getDay()\<close> (day of the week, 0 for Sunday) and the label
  \<open>toLocaleDateString('en-US', {month: 'short', year: '2-digit'})\<close>.
\<close>

record expense_category =
  category_name :: string
  category_icon :: string
  category_color :: string

record expense =
  name :: string
  amount :: real
  getDate :: nat
  getDay :: nat
  monthLabel :: string
  expense_categories :: "expense_category option"

datatype time_of_month = Early | Mid | Late | Consistent

record SpendingPattern =
  sp_category :: string
  sp_icon :: string
  sp_color :: string
  sp_totalSpent :: real
  sp_avgPerTransaction :: real
  sp_frequency :: nat
  sp_trend :: real
  sp_dayOfWeekPattern :: "(string \<times> nat) list"
  sp_timeOfMonthPattern :: time_of_month

datatype insight_type = Warning | Info | Success

text \<open>
  A description is a template literal: literal text and numbers printed by
  \<open>toFixed(d)\<close>.  The number is kept as it is (the digits are not computed); \<open>None\<close>
  stands for a number that is not finite.
\<close>

datatype piece = Txt string | Fixed nat "real option"

record SpendingInsight =
  si_type :: insight_type
  si_title :: string
  si_description :: "piece list"
  si_amount :: "real option"
  si_category :: "string option"


text \<open>\<open>expense.expense_categories?.name || 'Uncategorized'\<close>: the empty name is falsy too.\<close>

definition categoryName :: "expense \<Rightarrow> string" where
  "categoryName e =
     (case expense_categories e of
        None \<Rightarrow> ''Uncategorized''
      | Some c \<Rightarrow> if category_name c = [] then ''Uncategorized'' else category_name c)"

text \<open>
  \<open>categoryMap\<close> is a JavaScript \<open>Map\<close>, which iterates in insertion order: an
  association list with one entry for each key.  \<open>map_push\<close> is the body of the first
  \<open>forEach\<close> (lines 84-90): create the group at the first record of a category, then
  append the record to the group.
\<close>

type_synonym category_group = "expense list \<times> expense_category option"

fun map_push :: "string \<Rightarrow> expense \<Rightarrow> (string \<times> category_group) list
                  \<Rightarrow> (string \<times> category_group) list" where
  "map_push k e [] = [(k, ([e], expense_categories e))]"
| "map_push k e ((k', g) # m) =
     (if k' = k then (k', (fst g @ [e], snd g)) # m else (k', g) # map_push k e m)"

definition categoryMap :: "expense list \<Rightarrow> (string \<times> category_group) list" where
  "categoryMap expenses = foldl (\<lambda>m e. map_push (categoryName e) e m) [] expenses"

text \<open>\<open>total\<close> (lines 79-81) and \<open>totalCategorySpent\<close> (line 100): the same left fold.\<close>

definition sum_amounts :: "expense list \<Rightarrow> real" where
  "sum_amounts expenses = foldl (\<lambda>sum exp. sum + amount exp) 0 expenses"

definition days :: "string list" where
  "days = [''Sunday'', ''Monday'', ''Tuesday'', ''Wednesday'', ''Thursday'', ''Friday'',
           ''Saturday'']"

definition dayPattern :: "expense list \<Rightarrow> (string \<times> nat) list" where
  "dayPattern categoryExpenses =
     map (\<lambda>i. (days ! i, length (filter (\<lambda>exp. getDay exp = i) categoryExpenses))) [0..<7]"

definition earlyMonth :: "expense list \<Rightarrow> nat" where
  "earlyMonth categoryExpenses = length (filter (\<lambda>exp. getDate exp \<le> 10) categoryExpenses)"

definition midMonth :: "expense list \<Rightarrow> nat" where
  "midMonth categoryExpenses =
     length (filter (\<lambda>exp. getDate exp > 10 \<and> getDate exp \<le> 20) categoryExpenses)"

definition lateMonth :: "expense list \<Rightarrow> nat" where
  "lateMonth categoryExpenses = length (filter (\<lambda>exp. getDate exp > 20) categoryExpenses)"

definition timeOfMonthPattern :: "expense list \<Rightarrow> time_of_month" where
  "timeOfMonthPattern es =
     (if earlyMonth es > midMonth es \<and> earlyMonth es > lateMonth es then Early
      else if midMonth es > earlyMonth es \<and> midMonth es > lateMonth es then Mid
      else if lateMonth es > earlyMonth es \<and> lateMonth es > midMonth es then Late
      else Consistent)"

text \<open>
  The trend of a category (lines 131-139).  The rows come newest first, so the slice of
  the last \<open>halfPoint\<close> rows is the earlier half in time.  \<open>slice(-h)\<close> counts from the
  end, except that \<open>-0\<close> is \<open>0\<close>: for \<open>h = 0\<close> the slice is the whole array.
\<close>

definition halfPoint :: "'a list \<Rightarrow> nat" where
  "halfPoint xs = length xs div 2"

definition slice_from_end :: "nat \<Rightarrow> 'a list \<Rightarrow> 'a list" where
  "slice_from_end h xs = (if h = 0 then xs else drop (length xs - h) xs)"

definition firstHalf :: "expense list \<Rightarrow> expense list" where
  "firstHalf categoryExpenses = slice_from_end (halfPoint categoryExpenses) categoryExpenses"

definition secondHalf :: "expense list \<Rightarrow> expense list" where
  "secondHalf categoryExpenses =
     take (length categoryExpenses - halfPoint categoryExpenses) categoryExpenses"

text \<open>
  \<open>half.reduce(...) / half.length || 0\<close>: on an empty half the quotient is \<open>0 / 0\<close>,
  that is \<open>NaN\<close>, which \<open>||\<close> replaces by 0 (as it does a quotient that is 0).
\<close>

definition halfAvg :: "expense list \<Rightarrow> real" where
  "halfAvg half = (if half = [] then 0 else sum_amounts half / real (length half))"

definition firstHalfAvg :: "expense list \<Rightarrow> real" where
  "firstHalfAvg categoryExpenses = halfAvg (firstHalf categoryExpenses)"

definition secondHalfAvg :: "expense list \<Rightarrow> real" where
  "secondHalfAvg categoryExpenses = halfAvg (secondHalf categoryExpenses)"

definition trend :: "expense list \<Rightarrow> real" where
  "trend categoryExpenses =
     (if firstHalfAvg categoryExpenses > 0
      then ((secondHalfAvg categoryExpenses - firstHalfAvg categoryExpenses)
              / firstHalfAvg categoryExpenses) * 100
      else 0)"

text \<open>The fallbacks \<open>category?.icon || ...\<close> and \<open>category?.color || '#6B7280'\<close>.\<close>

definition default_icon :: string where
  "default_icon = [CHR 0xF0, CHR 0x9F, CHR 0x93, CHR 0xA6]"

definition icon_of :: "expense_category option \<Rightarrow> string" where
  "icon_of c = (case c of None \<Rightarrow> default_icon
                | Some c' \<Rightarrow> if category_icon c' = [] then default_icon else category_icon c')"

definition color_of :: "expense_category option \<Rightarrow> string" where
  "color_of c = (case c of None \<Rightarrow> ''#6B7280''
                 | Some c' \<Rightarrow> if category_color c' = [] then ''#6B7280'' else category_color c')"

text \<open>
  The pattern pushed for one category (lines 141-151).  A group of \<open>categoryMap\<close> is
  never empty (\<open>categoryMap_groups\<close> below), so the divisor of \<open>avgPerTransaction\<close> is
  not zero.
\<close>

definition analysisPattern :: "string \<times> category_group \<Rightarrow> SpendingPattern" where
  "analysisPattern entry =
     (let categoryExpenses = fst (snd entry); category = snd (snd entry) in
      \<lparr> sp_category = fst entry,
        sp_icon = icon_of category,
        sp_color = color_of category,
        sp_totalSpent = sum_amounts categoryExpenses,
        sp_avgPerTransaction = sum_amounts categoryExpenses / real (length categoryExpenses),
        sp_frequency = length categoryExpenses,
        sp_trend = trend categoryExpenses,
        sp_dayOfWeekPattern = dayPattern categoryExpenses,
        sp_timeOfMonthPattern = timeOfMonthPattern categoryExpenses \<rparr>)"


definition increasingSpending :: "string \<Rightarrow> real \<Rightarrow> SpendingInsight" where
  "increasingSpending catName t =
     \<lparr> si_type = Warning,
       si_title = ''Increasing '' @ catName @ '' Spending'',
       si_description =
         [Txt ''Your '', Txt catName, Txt '' spending has increased by '',
          Fixed 1 (Some t), Txt ''% recently.''],
       si_amount = None,
       si_category = Some catName \<rparr>"

definition reducedSpending :: "string \<Rightarrow> real \<Rightarrow> SpendingInsight" where
  "reducedSpending catName t =
     \<lparr> si_type = Success,
       si_title = ''Reduced '' @ catName @ '' Spending'',
       si_description =
         [Txt ''Great job! You've reduced '', Txt catName, Txt '' spending by '',
          Fixed 1 (Some \<bar>t\<bar>), Txt ''%.''],
       si_amount = None,
       si_category = Some catName \<rparr>"



text \<open>
  The two result arrays.  \<open>categoryMap.forEach\<close> pushes in the order of the map;
  \<open>sort\<close> with the comparator \<open>b.totalSpent - a.totalSpent\<close> is a stable sort by
  descending total; \<open>unshift\<close> puts the daily average in front, under its guard
  \<open>total > 0\<close> (lines 185-193).
\<close>

definition analysisPatterns :: "expense list \<Rightarrow> SpendingPattern list" where
  "analysisPatterns expenses =
     sort_key (\<lambda>p. - sp_totalSpent p) (map analysisPattern (categoryMap expenses))"


text \<open>
  The component's state and \<open>analyzeSpendingHabits\<close> itself: the query either fails
  (the error is thrown, caught and logged, and only \<open>loading\<close> changes) or returns the
  rows, which may be \<open>null\<close>; without rows the only insight is the invitation to start
  tracking and the other fields keep their values.
\<close>

record habits_state =
  patterns :: "SpendingPattern list"
  insights :: "SpendingInsight list"
  loading :: bool
  totalSpending :: real

datatype 'a query_result = QueryError string | QueryData "'a list option"

definition startTracking :: SpendingInsight where
  "startTracking =
     \<lparr> si_type = Info,
       si_title = ''Start Tracking Your Spending'',
       si_description =
         [Txt ''Add your first expenses to see personalized spending insights and patterns.''],
       si_amount = None,
       si_category = None \<rparr>"

definition initial_state :: habits_state where
  "initial_state = \<lparr> patterns = [], insights = [], loading = True, totalSpending = 0 \<rparr>"


text \<open>The scenario of the specification, newest row first as the query returns it.\<close>

definition groceries :: expense_category where
  "groceries = \<lparr> category_name = ''Groceries'', category_icon = ''G'',
                  category_color = ''#10B981'' \<rparr>"

definition gas :: expense_category where
  "gas = \<lparr> category_name = ''Gas'', category_icon = ''F'', category_color = ''#F59E0B'' \<rparr>"

definition market_15 :: expense where
  "market_15 =
     \<lparr> name = ''Market'', amount = 120, getDate = 15, getDay = 3, monthLabel = ''Jan 25'',
       expense_categories = Some groceries \<rparr>"

definition fuel_5 :: expense where
  "fuel_5 =
     \<lparr> name = ''Fuel'', amount = 50, getDate = 5, getDay = 0, monthLabel = ''Jan 25'',
       expense_categories = Some gas \<rparr>"

definition market_1 :: expense where
  "market_1 =
     \<lparr> name = ''Market'', amount = 100, getDate = 1, getDay = 3, monthLabel = ''Jan 25'',
       expense_categories = Some groceries \<rparr>"

definition scenario :: "expense list" where
  "scenario = [market_15, fuel_5, market_1]"

text \<open>Two groups with the same earlier row, one rising by 50 and one falling by 50.\<close>

definition rising :: "expense list" where
  "rising =
     [\<lparr> name = ''Fuel'', amount = 150, getDate = 5, getDay = 0, monthLabel = ''Feb 25'',
        expense_categories = Some gas \<rparr>,
      \<lparr> name = ''Fuel'', amount = 100, getDate = 5, getDay = 0, monthLabel = ''Jan 25'',
        expense_categories = Some gas \<rparr>]"

definition falling :: "expense list" where
  "falling =
     [\<lparr> name = ''Fuel'', amount = 50, getDate = 5, getDay = 0, monthLabel = ''Feb 25'',
        expense_categories = Some gas \<rparr>,
      \<lparr> name = ''Fuel'', amount = 100, getDate = 5, getDay = 0, monthLabel = ''Jan 25'',
        expense_categories = Some gas \<rparr>]"


section \<open>The monthly-trends analysis\<close>

text \<open>
  \<open>loadTrendsData\<close> reads the rows oldest first and, when there are any, builds
  \<open>billMap\<close> and \<open>categoryMap\<close>: for each key the list of \<open>{month, amount}\<close> entries in
  the order the months first appear, a row adding to the entry of its month when there
  is one (\<open>find\<close>, lines 671-679 and 689-697).  The monthly totals for the first chart
  and the chart data of each trend (\<open>monthlyAmounts\<close>, \<open>data\<close>: the same entries sorted
  by label with the host's \<open>localeCompare\<close>, after the figures are computed) are not
  part of the model.
\<close>

type_synonym month_amount = "string \<times> real"

type_synonym trend_group = "month_amount list \<times> expense_category option"

fun add_amount :: "string \<Rightarrow> real \<Rightarrow> month_amount list \<Rightarrow> month_amount list" where
  "add_amount month a [] = [(month, a)]"
| "add_amount month a (x # xs) =
     (if fst x = month then (fst x, snd x + a) # xs else x # add_amount month a xs)"

fun group_add :: "string \<Rightarrow> expense \<Rightarrow> (string \<times> trend_group) list
                   \<Rightarrow> (string \<times> trend_group) list" where
  "group_add k e [] = [(k, ([(monthLabel e, amount e)], expense_categories e))]"
| "group_add k e ((k', g) # m) =
     (if k' = k then (k', (add_amount (monthLabel e) (amount e) (fst g), snd g)) # m
      else (k', g) # group_add k e m)"

definition billKey :: "expense \<Rightarrow> string" where
  "billKey e = name e @ ''-'' @ categoryName e"

definition billMap :: "expense list \<Rightarrow> (string \<times> trend_group) list" where
  "billMap expenses = foldl (\<lambda>m e. group_add (billKey e) e m) [] expenses"

definition trends_categoryMap :: "expense list \<Rightarrow> (string \<times> trend_group) list" where
  "trends_categoryMap expenses = foldl (\<lambda>m e. group_add (categoryName e) e m) [] expenses"

definition sum_entries :: "month_amount list \<Rightarrow> real" where
  "sum_entries amounts = foldl (\<lambda>sum a. sum + snd a) 0 amounts"

text \<open>
  The figures of a bill (lines 709-727).  They are computed under the guard
  \<open>amounts.length >= 2\<close>, so no divisor below is zero where the code evaluates them.
\<close>

definition avgAmount :: "month_amount list \<Rightarrow> real" where
  "avgAmount amounts = sum_entries amounts / real (length amounts)"

definition bill_firstHalf :: "month_amount list \<Rightarrow> month_amount list" where
  "bill_firstHalf amounts = take (halfPoint amounts) amounts"

definition bill_secondHalf :: "month_amount list \<Rightarrow> month_amount list" where
  "bill_secondHalf amounts = drop (halfPoint amounts) amounts"

definition bill_trend :: "month_amount list \<Rightarrow> real" where
  "bill_trend amounts =
     (let firstHalfAvg = sum_entries (bill_firstHalf amounts)
                           / real (length (bill_firstHalf amounts));
          secondHalfAvg = sum_entries (bill_secondHalf amounts)
                           / real (length (bill_secondHalf amounts)) in
      if firstHalfAvg > 0 then ((secondHalfAvg - firstHalfAvg) / firstHalfAvg) * 100 else 0)"

definition variance :: "month_amount list \<Rightarrow> real" where
  "variance amounts =
     foldl (\<lambda>sum a. sum + (snd a - avgAmount amounts) ^ 2) 0 amounts / real (length amounts)"

definition stdDev :: "month_amount list \<Rightarrow> real" where
  "stdDev amounts = sqrt (variance amounts)"

definition coefficientOfVariation :: "month_amount list \<Rightarrow> real" where
  "coefficientOfVariation amounts =
     (if avgAmount amounts > 0 then stdDev amounts / avgAmount amounts else 1)"

definition isRecurring :: "month_amount list \<Rightarrow> bool" where
  "isRecurring amounts \<longleftrightarrow> coefficientOfVariation amounts < 0.3 \<and> length amounts \<ge> 3"

text \<open>
  \<open>billName.split('-')\<close> and the destructuring \<open>[name, categoryName]\<close>, which reads the
  elements 0 and 1 of the array (\<open>undefined\<close>, here \<open>None\<close>, beyond its end).
\<close>

fun split_on :: "char \<Rightarrow> string \<Rightarrow> string list" where
  "split_on c [] = [] # []"
| "split_on c (x # xs) =
     (if x = c then [] # split_on c xs
      else (case split_on c xs of [] \<Rightarrow> [x] # [] | p # ps \<Rightarrow> (x # p) # ps))"

definition element :: "'a list \<Rightarrow> nat \<Rightarrow> 'a option" where
  "element xs i = (if i < length xs then Some (xs ! i) else None)"

record BillTrend =
  bt_name :: "string option"
  bt_category :: "string option"
  bt_icon :: string
  bt_color :: string
  bt_trend :: real
  bt_avgAmount :: real
  bt_isRecurring :: bool
  bt_variance :: real

definition billTrend :: "string \<times> trend_group \<Rightarrow> BillTrend" where
  "billTrend entry =
     (let billName = fst entry; amounts = fst (snd entry); category = snd (snd entry);
          parts = split_on CHR ''-'' billName in
      \<lparr> bt_name = element parts 0,
        bt_category = element parts 1,
        bt_icon = icon_of category,
        bt_color = color_of category,
        bt_trend = bill_trend amounts,
        bt_avgAmount = avgAmount amounts,
        bt_isRecurring = isRecurring amounts,
        bt_variance = coefficientOfVariation amounts \<rparr>)"

text \<open>
  \<open>billTrendsArray\<close>: the bills with at least two months, then the stable sort of
  lines 771-776, recurring bills first and larger absolute trends first among equals.
\<close>

definition billTrendsArray :: "expense list \<Rightarrow> BillTrend list" where
  "billTrendsArray expenses =
     sort_key (\<lambda>b. (\<not> bt_isRecurring b, - \<bar>bt_trend b\<bar>))
       (map billTrend (filter (\<lambda>entry. length (fst (snd entry)) \<ge> 2) (billMap expenses)))"

text \<open>
  The figures of a category (lines 746-757); here the halves may be empty and the
  divisor is \<open>half.length || 1\<close>.
\<close>

definition category_trend :: "month_amount list \<Rightarrow> real" where
  "category_trend amounts =
     (let firstHalf = take (halfPoint amounts) amounts;
          secondHalf = drop (halfPoint amounts) amounts;
          firstHalfAvg = sum_entries firstHalf
                           / real (if length firstHalf = 0 then 1 else length firstHalf);
          secondHalfAvg = sum_entries secondHalf
                           / real (if length secondHalf = 0 then 1 else length secondHalf) in
      if firstHalfAvg > 0 then ((secondHalfAvg - firstHalfAvg) / firstHalfAvg) * 100 else 0)"

record CategoryTrend =
  ct_category :: string
  ct_icon :: string
  ct_color :: string
  ct_trend :: real
  ct_avgMonthly :: real
  ct_totalSpent :: real

definition categoryTrend :: "string \<times> trend_group \<Rightarrow> CategoryTrend" where
  "categoryTrend entry =
     (let amounts = fst (snd entry); category = snd (snd entry) in
      \<lparr> ct_category = fst entry,
        ct_icon = icon_of category,
        ct_color = color_of category,
        ct_trend = category_trend amounts,
        ct_avgMonthly = sum_entries amounts / real (length amounts),
        ct_totalSpent = sum_entries amounts \<rparr>)"

definition categoryTrendsArray :: "expense list \<Rightarrow> CategoryTrend list" where
  "categoryTrendsArray expenses =
     sort_key (\<lambda>c. - ct_totalSpent c) (map categoryTrend (trends_categoryMap expenses))"

text \<open>Sample rows and series of the trends view: a bill whose name has a hyphen, paid
  in two months, and three monthly series.\<close>

definition utilities :: expense_category where
  "utilities = \<lparr> category_name = ''Utilities'', category_icon = ''U'',
                  category_color = ''#3B82F6'' \<rparr>"

definition wifi_jan :: expense where
  "wifi_jan =
     \<lparr> name = ''Wi-Fi'', amount = 50, getDate = 3, getDay = 5, monthLabel = ''Jan 25'',
       expense_categories = Some utilities \<rparr>"

definition wifi_feb :: expense where
  "wifi_feb =
     \<lparr> name = ''Wi-Fi'', amount = 55, getDate = 3, getDay = 1, monthLabel = ''Feb 25'',
       expense_categories = Some utilities \<rparr>"

definition steady_bill :: "month_amount list" where
  "steady_bill = [(''Jan 25'', 100), (''Feb 25'', 100), (''Mar 25'', 100)]"


section \<open>The specification's trend and recurring rules\<close>

text \<open>
  The Trend Estimator as the specification words it, over the series of amounts oldest
  first: split at the floor of half the length, compare the two means, and take 0 when
  the earlier mean is 0 or, for a single observation, is not there at all.
\<close>

definition mean :: "real list \<Rightarrow> real" where
  "mean xs = sum_list xs / real (length xs)"

definition trend_spec :: "real list \<Rightarrow> real" where
  "trend_spec series =
     (let earlier = take (length series div 2) series;
          later = drop (length series div 2) series in
      if earlier = [] \<or> mean earlier = 0 then 0
      else (mean later - mean earlier) / mean earlier * 100)"

text \<open>
  The coefficient of variation as the specification words it: the population standard
  deviation of the full series divided by its mean, which is no number when the mean
  is 0.
\<close>

definition population_sd :: "real list \<Rightarrow> real" where
  "population_sd xs = sqrt ((\<Sum>x\<leftarrow>xs. (x - mean xs) ^ 2) / real (length xs))"

definition cv_spec :: "real list \<Rightarrow> real option" where
  "cv_spec xs = (if mean xs = 0 then None else Some (population_sd xs / mean xs))"

section \<open>The same computations in double precision\<close>

text \<open>
  Where rounding decides what the program does, the computations are modelled a second
  time with the arithmetic of JavaScript numbers: every operation returns the exact
  result rounded to the nearest binary64 number, ties to the even significand.
  \<open>binary64\<close> is that rounding.  \<open>quantum\<close> is the spacing of the binary64 numbers
  around a positive \<open>x\<close>: the power of two \<open>q\<close> with \<open>2^52 * q \<le> x < 2^53 * q\<close>, found
  from 1 by doubling (at most 971 times, up to the spacing \<open>2^971\<close> of the largest
  numbers) or by halving (at most 1074 times, down to the spacing \<open>2^-1074\<close> of the
  subnormal numbers).  Numbers beyond the largest binary64 number (overflow to
  \<open>Infinity\<close>) are outside this model.
\<close>

definition round_half_even :: "real \<Rightarrow> int" where
  "round_half_even x =
     (let f = \<lfloor>x\<rfloor>; r = x - of_int f in
      if r < 1 / 2 then f else if 1 / 2 < r then f + 1 else if even f then f else f + 1)"

fun quantum_up :: "nat \<Rightarrow> real \<Rightarrow> real \<Rightarrow> real" where
  "quantum_up 0 x q = q"
| "quantum_up (Suc n) x q = (if 2 ^ 53 * q \<le> x then quantum_up n x (2 * q) else q)"

fun quantum_down :: "nat \<Rightarrow> real \<Rightarrow> real \<Rightarrow> real" where
  "quantum_down 0 x q = q"
| "quantum_down (Suc n) x q = (if x < 2 ^ 52 * q then quantum_down n x (q / 2) else q)"

definition quantum :: "real \<Rightarrow> real" where
  "quantum x = (if 2 ^ 53 \<le> x then quantum_up 971 x 1 else quantum_down 1074 x 1)"

definition binary64 :: "real \<Rightarrow> real" where
  "binary64 x =
     (if x = 0 then 0
      else (let q = quantum \<bar>x\<bar> in
            if 0 < x then of_int (round_half_even (x / q)) * q
            else - (of_int (round_half_even (- x / q)) * q)))"

definition dadd :: "real \<Rightarrow> real \<Rightarrow> real" where
  "dadd x y = binary64 (x + y)"

definition dsub :: "real \<Rightarrow> real \<Rightarrow> real" where
  "dsub x y = binary64 (x - y)"

definition dmul :: "real \<Rightarrow> real \<Rightarrow> real" where
  "dmul x y = binary64 (x * y)"

text \<open>\<open>ddiv\<close> is used with a divisor that is not zero; a divisor that may be zero is a
  case of its own in the caller, as before.\<close>

definition ddiv :: "real \<Rightarrow> real \<Rightarrow> real" where
  "ddiv x y = binary64 (x / y)"

definition dsqrt :: "real \<Rightarrow> real" where
  "dsqrt x = binary64 (sqrt x)"

text \<open>
  \<open>Number(expense.amount)\<close>: the stored decimal amount becomes the nearest binary64
  number.
\<close>

definition Number_amount :: "expense \<Rightarrow> real" where
  "Number_amount e = binary64 (amount e)"

text \<open>The habits analysis (part 1) with this arithmetic; the grouping is unchanged.\<close>

definition sum_amounts_d :: "expense list \<Rightarrow> real" where
  "sum_amounts_d expenses = foldl (\<lambda>sum exp. dadd sum (Number_amount exp)) 0 expenses"

definition halfAvg_d :: "expense list \<Rightarrow> real" where
  "halfAvg_d half = (if half = [] then 0 else ddiv (sum_amounts_d half) (real (length half)))"

definition firstHalfAvg_d :: "expense list \<Rightarrow> real" where
  "firstHalfAvg_d categoryExpenses = halfAvg_d (firstHalf categoryExpenses)"

definition secondHalfAvg_d :: "expense list \<Rightarrow> real" where
  "secondHalfAvg_d categoryExpenses = halfAvg_d (secondHalf categoryExpenses)"

definition trend_d :: "expense list \<Rightarrow> real" where
  "trend_d categoryExpenses =
     (if firstHalfAvg_d categoryExpenses > 0
      then dmul (ddiv (dsub (secondHalfAvg_d categoryExpenses) (firstHalfAvg_d categoryExpenses))
                   (firstHalfAvg_d categoryExpenses)) 100
      else 0)"

definition analysisPattern_d :: "string \<times> category_group \<Rightarrow> SpendingPattern" where
  "analysisPattern_d entry =
     (let categoryExpenses = fst (snd entry); category = snd (snd entry) in
      \<lparr> sp_category = fst entry,
        sp_icon = icon_of category,
        sp_color = color_of category,
        sp_totalSpent = sum_amounts_d categoryExpenses,
        sp_avgPerTransaction =
          ddiv (sum_amounts_d categoryExpenses) (real (length categoryExpenses)),
        sp_frequency = length categoryExpenses,
        sp_trend = trend_d categoryExpenses,
        sp_dayOfWeekPattern = dayPattern categoryExpenses,
        sp_timeOfMonthPattern = timeOfMonthPattern categoryExpenses \<rparr>)"

definition js_div_d :: "real \<Rightarrow> real \<Rightarrow> real option" where
  "js_div_d a b = (if b = 0 then None else Some (ddiv a b))"

definition highSpending_d :: "real \<Rightarrow> string \<Rightarrow> real \<Rightarrow> SpendingInsight" where
  "highSpending_d grandTotal catName totalCategorySpent =
     \<lparr> si_type = Warning,
       si_title = ''High '' @ catName @ '' Spending'',
       si_description =
         [Txt catName, Txt '' accounts for '',
          Fixed 1 (map_option (\<lambda>q. dmul q 100) (js_div_d totalCategorySpent grandTotal)),
          Txt ''% of your total spending.''],
       si_amount = Some totalCategorySpent,
       si_category = Some catName \<rparr>"

definition categoryInsights_d :: "real \<Rightarrow> string \<times> category_group \<Rightarrow> SpendingInsight list" where
  "categoryInsights_d grandTotal entry =
     (let catName = fst entry; categoryExpenses = fst (snd entry);
          totalCategorySpent = sum_amounts_d categoryExpenses;
          t = trend_d categoryExpenses in
      (if totalCategorySpent > dmul grandTotal (binary64 0.3)
       then [highSpending_d grandTotal catName totalCategorySpent] else [])
      @ (if t > 50 then [increasingSpending catName t]
         else if t < - 20 then [reducedSpending catName t]
         else []))"

definition dailyAverage_d :: "real \<Rightarrow> SpendingInsight" where
  "dailyAverage_d grandTotal =
     \<lparr> si_type = Info,
       si_title = ''Daily Spending Average'',
       si_description =
         [Txt ''You spend an average of $'', Fixed 2 (Some (ddiv grandTotal 90)),
          Txt '' per day over the last 3 months.''],
       si_amount = Some (ddiv grandTotal 90),
       si_category = None \<rparr>"

definition analysisPatterns_d :: "expense list \<Rightarrow> SpendingPattern list" where
  "analysisPatterns_d expenses =
     sort_key (\<lambda>p. - sp_totalSpent p) (map analysisPattern_d (categoryMap expenses))"

definition generatedInsights_d :: "expense list \<Rightarrow> SpendingInsight list" where
  "generatedInsights_d expenses =
     (let grandTotal = sum_amounts_d expenses;
          pushed = concat (map (categoryInsights_d grandTotal) (categoryMap expenses)) in
      if grandTotal > 0 then dailyAverage_d grandTotal # pushed else pushed)"

fun analyzeSpendingHabits_d :: "expense query_result \<Rightarrow> habits_state \<Rightarrow> habits_state" where
  "analyzeSpendingHabits_d (QueryError err) st = st \<lparr> loading := False \<rparr>"
| "analyzeSpendingHabits_d (QueryData None) st =
     st \<lparr> insights := [startTracking], loading := False \<rparr>"
| "analyzeSpendingHabits_d (QueryData (Some expenses)) st =
     (if expenses = [] then st \<lparr> insights := [startTracking], loading := False \<rparr>
      else st \<lparr> totalSpending := sum_amounts_d expenses,
                patterns := analysisPatterns_d expenses,
                insights := generatedInsights_d expenses,
                loading := False \<rparr>)"

text \<open>
  The figures of the trends view (part 3) with this arithmetic, over the entries a map
  holds, which are binary64 numbers already.  \<open>Math.pow(d, 2)\<close> is the rounded product
  \<open>d * d\<close>.
\<close>

definition sum_entries_d :: "month_amount list \<Rightarrow> real" where
  "sum_entries_d amounts = foldl (\<lambda>sum a. dadd sum (snd a)) 0 amounts"

definition avgAmount_d :: "month_amount list \<Rightarrow> real" where
  "avgAmount_d amounts = ddiv (sum_entries_d amounts) (real (length amounts))"

definition variance_d :: "month_amount list \<Rightarrow> real" where
  "variance_d amounts =
     ddiv (foldl (\<lambda>sum a. dadd sum (dmul (dsub (snd a) (avgAmount_d amounts))
                                         (dsub (snd a) (avgAmount_d amounts)))) 0 amounts)
          (real (length amounts))"

definition stdDev_d :: "month_amount list \<Rightarrow> real" where
  "stdDev_d amounts = dsqrt (variance_d amounts)"

definition coefficientOfVariation_d :: "month_amount list \<Rightarrow> real" where
  "coefficientOfVariation_d amounts =
     (if avgAmount_d amounts > 0 then ddiv (stdDev_d amounts) (avgAmount_d amounts) else 1)"

definition isRecurring_d :: "month_amount list \<Rightarrow> bool" where
  "isRecurring_d amounts \<longleftrightarrow>
     coefficientOfVariation_d amounts < binary64 0.3 \<and> length amounts \<ge> 3"

definition category_trend_d :: "month_amount list \<Rightarrow> real" where
  "category_trend_d amounts =
     (let firstHalf = take (halfPoint amounts) amounts;
          secondHalf = drop (halfPoint amounts) amounts;
          firstHalfAvg = ddiv (sum_entries_d firstHalf)
                           (real (if length firstHalf = 0 then 1 else length firstHalf));
          secondHalfAvg = ddiv (sum_entries_d secondHalf)
                           (real (if length secondHalf = 0 then 1 else length secondHalf)) in
      if firstHalfAvg > 0 then dmul (ddiv (dsub secondHalfAvg firstHalfAvg) firstHalfAvg) 100
      else 0)"

text \<open>
  The mean and the population standard deviation of a series as the specification words
  them, computed with the same arithmetic, from the first element to the last.
\<close>

definition mean_d :: "real list \<Rightarrow> real" where
  "mean_d xs = ddiv (foldl dadd 0 xs) (real (length xs))"

definition population_sd_d :: "real list \<Rightarrow> real" where
  "population_sd_d xs =
     dsqrt (ddiv (foldl dadd 0 (map (\<lambda>x. dmul (dsub x (mean_d xs)) (dsub x (mean_d xs))) xs))
                 (real (length xs)))"

text \<open>Sample rows in cents and with a refund.\<close>

definition row :: "string \<Rightarrow> expense_category \<Rightarrow> real \<Rightarrow> expense" where
  "row n c a =
     \<lparr> name = n, amount = a, getDate = 5, getDay = 0, monthLabel = ''Jan 25'',
       expense_categories = Some c \<rparr>"

definition fuel_1c :: expense where
  "fuel_1c = row ''Fuel'' gas (1 / 100)"

definition fuel_2c :: expense where
  "fuel_2c = row ''Fuel'' gas (2 / 100)"

definition fuel_3c :: expense where
  "fuel_3c = row ''Fuel'' gas (3 / 100)"

definition fuel_6c :: expense where
  "fuel_6c = row ''Fuel'' gas (6 / 100)"

definition fuel_90c :: expense where
  "fuel_90c = row ''Fuel'' gas (90 / 100)"

definition fuel_300 :: expense where
  "fuel_300 = row ''Fuel'' gas 300"

definition fuel_refund :: expense where
  "fuel_refund = row ''Fuel'' gas (- 100)"

definition market_1c :: expense where
  "market_1c = row ''Market'' groceries (1 / 100)"

definition market_210c :: expense where
  "market_210c = row ''Market'' groceries (210 / 100)"

definition penny_rows :: "expense list" where
  "penny_rows = [fuel_1c, market_1c, fuel_6c]"

definition thirty_percent_rows :: "expense list" where
  "thirty_percent_rows = [fuel_90c, market_210c]"

definition refund_rows :: "expense list" where
  "refund_rows = [fuel_300, fuel_refund]"

definition cents_up :: "expense list" where
  "cents_up = [fuel_3c, fuel_2c]"

definition cents_down :: "expense list" where
  "cents_down = [fuel_1c, fuel_2c]"

definition refund_bill :: "month_amount list" where
  "refund_bill = [(''Jan 25'', - 100), (''Feb 25'', - 100), (''Mar 25'', - 100)]"

section \<open>Monthly normalizer: the multiplier table\<close>

text \<open>
  Claim C4.  For every amount and every frequency tag the normalizer returns the amount
  times 4.33 for weekly, times 2.17 for biweekly, divided by 12 for annual, and the amount
  itself for monthly and for every other tag; 100 weekly is 433.  The function is total:
  it has a value, without any error case, on every pair of arguments.
\<close>

theorem calculateMonthlyAmount_table:
  "calculateMonthlyAmount a ''weekly'' = a * 433 / 100
   \<and> calculateMonthlyAmount a ''biweekly'' = a * 217 / 100
   \<and> calculateMonthlyAmount a ''annual'' = a / 12
   \<and> calculateMonthlyAmount a ''monthly'' = a
   \<and> (f \<notin> {''weekly'', ''biweekly'', ''annual''} \<longrightarrow> calculateMonthlyAmount a f = a)
   \<and> calculateMonthlyAmount 100 ''weekly'' = 433"
  by (simp add: calculateMonthlyAmount_def)

theorem calculateMonthlyAmount_table_witness:
  "''quarterly'' \<notin> {''weekly'', ''biweekly'', ''annual''}
   \<and> calculateMonthlyAmount 80 ''quarterly'' = 80
   \<and> calculateMonthlyAmount 500 ''weekly'' = 2165
   \<and> totalMonthlyIncome [(500, ''weekly'')] = 2165"
  using calculateMonthlyAmount_table [of 80 "''quarterly''"]
    calculateMonthlyAmount_table [of 500 "''quarterly''"]
  by (simp add: totalMonthlyIncome_def)

section \<open>Grouping by category\<close>

lemma foldl_add_amounts:
  "foldl (\<lambda>sum exp. sum + amount exp) a es = a + sum_list (map amount es)"
  by (induction es arbitrary: a) simp_all

lemma sum_amounts_sum_list: "sum_amounts es = sum_list (map amount es)"
  by (simp add: sum_amounts_def foldl_add_amounts)

lemma sum_amounts_append: "sum_amounts (xs @ ys) = sum_amounts xs + sum_amounts ys"
  by (simp add: sum_amounts_sum_list)

lemma map_push_total:
  "(\<Sum>g\<leftarrow>map_push k e m. sum_amounts (fst (snd g)))
     = (\<Sum>g\<leftarrow>m. sum_amounts (fst (snd g))) + amount e"
  by (induction m) (auto simp: sum_amounts_sum_list)

lemma categoryMap_snoc:
  "categoryMap (es @ [e]) = map_push (categoryName e) e (categoryMap es)"
  by (simp add: categoryMap_def)

lemma categoryMap_total:
  "(\<Sum>g\<leftarrow>categoryMap es. sum_amounts (fst (snd g))) = sum_amounts es"
  by (induction es rule: rev_induct)
     (simp_all add: categoryMap_snoc map_push_total sum_amounts_append,
      simp_all add: categoryMap_def sum_amounts_def)

lemma map_push_keys:
  "map fst (map_push k e m) = (if k \<in> set (map fst m) then map fst m else map fst m @ [k])"
  by (induction m) force+

lemma map_push_distinct: "distinct (map fst m) \<Longrightarrow> distinct (map fst (map_push k e m))"
  by (simp add: map_push_keys)

lemma map_of_map_push:
  "map_of (map_push k e m) =
     (map_of m)(k \<mapsto> (case map_of m k of None \<Rightarrow> ([e], expense_categories e)
                        | Some g \<Rightarrow> (fst g @ [e], snd g)))"
  by (induction m) (auto simp: fun_eq_iff)

lemma categoryMap_distinct: "distinct (map fst (categoryMap es))"
  by (induction es rule: rev_induct)
     (simp_all add: categoryMap_snoc map_push_distinct, simp add: categoryMap_def)

lemma categoryMap_lookup:
  "map_option fst (map_of (categoryMap es) k) =
     (if filter (\<lambda>x. categoryName x = k) es = [] then None
      else Some (filter (\<lambda>x. categoryName x = k) es))"
proof (induction es rule: rev_induct)
  case Nil
  show ?case by (simp add: categoryMap_def)
next
  case (snoc e es)
  then show ?case
    by (auto simp: categoryMap_snoc map_of_map_push split: option.splits if_splits)
qed

text \<open>A group holds the rows of its category, in their order, and is never empty.\<close>

lemma categoryMap_groups:
  assumes "(k, g) \<in> set (categoryMap es)"
  shows "fst g = filter (\<lambda>x. categoryName x = k) es \<and> fst g \<noteq> []"
proof -
  from assms have "map_of (categoryMap es) k = Some g"
    by (simp add: categoryMap_distinct)
  with categoryMap_lookup [of es k] show ?thesis
    by (auto split: if_splits)
qed

lemma categoryMap_keys: "set (map fst (categoryMap es)) = categoryName ` set es"
  by (induction es rule: rev_induct)
     (auto simp: categoryMap_snoc map_push_keys categoryMap_def)

lemma analysisPatterns_totals:
  "map sp_totalSpent (map analysisPattern m) = map (\<lambda>g. sum_amounts (fst (snd g))) m"
  by (simp add: analysisPattern_def Let_def)

section \<open>Time-of-month classification\<close>

text \<open>
  Claim C8.  The three buckets (day up to 10, day 11 to 20, day after 20) split the rows
  of a group; the classification is the bucket that holds strictly more rows than each of
  the other two, and it is \<open>Consistent\<close> exactly when the largest count is shared by two
  buckets, that is on a tie for the first place.
\<close>

theorem timeOfMonthPattern_majority:
  "earlyMonth es + midMonth es + lateMonth es = length es
   \<and> (timeOfMonthPattern es = Early
        \<longleftrightarrow> earlyMonth es > midMonth es \<and> earlyMonth es > lateMonth es)
   \<and> (timeOfMonthPattern es = Mid
        \<longleftrightarrow> midMonth es > earlyMonth es \<and> midMonth es > lateMonth es)
   \<and> (timeOfMonthPattern es = Late
        \<longleftrightarrow> lateMonth es > earlyMonth es \<and> lateMonth es > midMonth es)
   \<and> (timeOfMonthPattern es = Consistent \<longleftrightarrow>
        (let top = max (earlyMonth es) (max (midMonth es) (lateMonth es)) in
         (earlyMonth es = top \<and> midMonth es = top)
         \<or> (earlyMonth es = top \<and> lateMonth es = top)
         \<or> (midMonth es = top \<and> lateMonth es = top)))"
proof -
  have "earlyMonth es + midMonth es + lateMonth es = length es"
    unfolding earlyMonth_def midMonth_def lateMonth_def
    by (induction es) auto
  then show ?thesis
    by (auto simp: timeOfMonthPattern_def Let_def max_def)
qed

theorem timeOfMonthPattern_majority_witness:
  "timeOfMonthPattern [market_15, market_1] = Consistent
   \<and> timeOfMonthPattern [fuel_5] = Early
   \<and> earlyMonth [market_15, market_1] = 1 \<and> midMonth [market_15, market_1] = 1"
  using timeOfMonthPattern_majority [of "[market_15, market_1]"]
    timeOfMonthPattern_majority [of "[fuel_5]"]
  by (simp add: market_15_def fuel_5_def market_1_def earlyMonth_def midMonth_def lateMonth_def)

section \<open>Sums of entries and the guard of the trend\<close>



text \<open>The guard is \<open>firstHalfAvg > 0\<close>: an earlier average that is not positive gives 0.\<close>

lemma trend_guard: "firstHalfAvg es \<le> 0 \<Longrightarrow> trend es = 0"
  by (simp add: trend_def)

section \<open>The insight generator\<close>







section \<open>Recurring bills\<close>




section \<open>The composite key of a bill\<close>

text \<open>
  The first element of the split is the key up to its first separator, so the name read
  back from a key is never a name that contains a hyphen.
\<close>

lemma split_on_nonempty: "split_on c xs \<noteq> []"
  by (induction xs) (auto split: list.splits)

lemma split_on_first: "element (split_on c xs) 0 = Some (takeWhile (\<lambda>x. x \<noteq> c) xs)"
proof (induction xs)
  case Nil
  show ?case by (simp add: element_def)
next
  case (Cons x xs)
  then show ?case
    using split_on_nonempty [of c xs]
    by (cases "split_on c xs") (auto simp: element_def)
qed

lemma hyphenated_name_cut:
  assumes "CHR ''-'' \<in> set n"
  shows "element (split_on CHR ''-'' (n @ ''-'' @ k)) 0 \<noteq> Some n"
proof -
  from assms have "takeWhile (\<lambda>x. x \<noteq> CHR ''-'') (n @ ''-'' @ k)
                     = takeWhile (\<lambda>x. x \<noteq> CHR ''-'') n"
    by simp
  moreover from assms have "takeWhile (\<lambda>x. x \<noteq> CHR ''-'') n \<noteq> n"
    by auto
  ultimately show ?thesis by (simp add: split_on_first)
qed

lemma billMap_wifi:
  "billMap [wifi_jan, wifi_feb]
     = [(''Wi-Fi-Utilities'', ([(''Jan 25'', 50), (''Feb 25'', 55)], Some utilities))]"
  by (simp add: billMap_def billKey_def categoryName_def wifi_jan_def wifi_feb_def utilities_def)

text \<open>
  Claim C9.  There is an expense whose name contains a hyphen and whose bill trend
  reports another name: the key of \<open>Wi-Fi\<close> in the category \<open>Utilities\<close> is
  \<open>Wi-Fi-Utilities\<close>, and splitting it at the hyphens gives the bill the name \<open>Wi\<close> and
  the category \<open>Fi\<close>.
\<close>

theorem hyphen_misparsed:
  "CHR ''-'' \<in> set (name wifi_jan)
   \<and> billKey wifi_jan = ''Wi-Fi-Utilities''
   \<and> map bt_name (billTrendsArray [wifi_jan, wifi_feb]) = [Some ''Wi'']
   \<and> map bt_category (billTrendsArray [wifi_jan, wifi_feb]) = [Some ''Fi'']
   \<and> Some (name wifi_jan) \<notin> set (map bt_name (billTrendsArray [wifi_jan, wifi_feb]))"
proof -
  have parts: "split_on CHR ''-'' ''Wi-Fi-Utilities'' = [''Wi'', ''Fi'', ''Utilities'']"
    by simp
  have "map bt_name (billTrendsArray [wifi_jan, wifi_feb]) = [Some ''Wi'']"
    and "map bt_category (billTrendsArray [wifi_jan, wifi_feb]) = [Some ''Fi'']"
    unfolding billTrendsArray_def billMap_wifi
    by (simp_all add: billTrend_def Let_def parts element_def)
  moreover have "name wifi_jan = ''Wi-Fi''" "billKey wifi_jan = ''Wi-Fi-Utilities''"
    by (simp_all add: wifi_jan_def billKey_def categoryName_def utilities_def)
  ultimately show ?thesis by simp
qed

section \<open>Rounding to binary64\<close>

text \<open>
  The search for the spacing, unfolded one step for a numeral bound, and the rules that
  evaluate \<open>binary64\<close> on a given number.  Rounding keeps 0 and commutes with the sign.
\<close>

lemma quantum_up_numeral:
  "quantum_up (numeral k) x q =
     (if 2 ^ 53 * q \<le> x then quantum_up (pred_numeral k) x (2 * q) else q)"
  by (simp add: numeral_eq_Suc)

lemma quantum_down_numeral:
  "quantum_down (numeral k) x q =
     (if x < 2 ^ 52 * q then quantum_down (pred_numeral k) x (q / 2) else q)"
  by (simp add: numeral_eq_Suc)

lemmas binary64_eval = binary64_def quantum_def quantum_up_numeral quantum_down_numeral
  round_half_even_def Let_def

lemma binary64_zero: "binary64 0 = 0"
  by (simp add: binary64_def)

lemma binary64_minus: "binary64 (- x) = - binary64 x"
  by (simp add: binary64_def Let_def)

lemma sum_amounts_d_foldl: "sum_amounts_d es = foldl dadd 0 (map Number_amount es)"
  by (simp add: sum_amounts_d_def foldl_map)

lemma sum_entries_d_foldl: "sum_entries_d xs = foldl dadd 0 (map snd xs)"
  by (simp add: sum_entries_d_def foldl_map)

lemma halfAvg_d_mean: "half \<noteq> [] \<Longrightarrow> halfAvg_d half = mean_d (map Number_amount half)"
  by (simp add: halfAvg_d_def mean_d_def sum_amounts_d_foldl)

lemma trend_d_single: "length es = 1 \<Longrightarrow> trend_d es = 0"
  by (simp add: trend_d_def firstHalfAvg_d_def secondHalfAvg_d_def firstHalf_def secondHalf_def
      slice_from_end_def halfPoint_def dsub_def ddiv_def dmul_def binary64_zero)

lemma trend_d_halves:
  assumes "2 \<le> length es"
  shows "firstHalfAvg_d es
           = mean_d (map Number_amount (drop (length es - length es div 2) es))"
    and "secondHalfAvg_d es
           = mean_d (map Number_amount (take (length es - length es div 2) es))"
proof -
  let ?n = "length es" and ?h = "length es div 2"
  from assms have h: "0 < ?h" "?h < ?n" by auto
  then have ne: "drop (?n - ?h) es \<noteq> []" "take (?n - ?h) es \<noteq> []" by auto
  have "firstHalf es = drop (?n - ?h) es"
    unfolding firstHalf_def slice_from_end_def halfPoint_def using h(1)
    by (simp only: if_not_P less_numeral_extra(3))
  then show "firstHalfAvg_d es = mean_d (map Number_amount (drop (?n - ?h) es))"
    by (simp only: firstHalfAvg_d_def halfAvg_d_mean [OF ne(1)])
  show "secondHalfAvg_d es = mean_d (map Number_amount (take (?n - ?h) es))"
    by (simp only: secondHalfAvg_d_def secondHalf_def halfPoint_def halfAvg_d_mean [OF ne(2)])
qed

lemma category_trend_d_single: "length amounts = 1 \<Longrightarrow> category_trend_d amounts = 0"
  by (simp add: category_trend_d_def halfPoint_def sum_entries_d_def ddiv_def binary64_zero)

lemma binary64_values:
  "binary64 300 = 300" "binary64 (- 100) = - 100" "binary64 400 = 400"
  "binary64 (- 4) = - 4" "binary64 (- 400) = - 400" "binary64 100 = 100" "binary64 120 = 120"
  "binary64 220 = 220" "binary64 20 = 20" "binary64 50 = 50"
  "binary64 (1 / 5) = 3602879701896397 / 18014398509481984"
  "binary64 (90071992547409925 / 4503599627370496) = 20"
  by (simp_all add: binary64_eval)


section \<open>The trend estimator\<close>

text \<open>
  Claim C1.  For every non-empty series of amounts of one group, the trend is 0 for a
  single observation and otherwise (later mean - earlier mean) / earlier mean * 100 for
  the series split at the floor of half its length, each mean and each operation in the
  program's double arithmetic, and 0 when the earlier mean is not greater than 0.  The
  habits analysis holds its rows newest first, so its earlier half is the last
  \<open>floor (n / 2)\<close> rows; the category trends hold the months oldest first.  Every divisor
  that may be zero has its own case in the definitions, so no value depends on a division
  by zero.
\<close>

theorem trend_estimator_rule:
  assumes "es \<noteq> []" and "amounts \<noteq> []"
  shows "trend_d es =
           (if length es = 1 then 0
            else let earlier = map Number_amount (drop (length es - length es div 2) es);
                     later = map Number_amount (take (length es - length es div 2) es)
                 in if 0 < mean_d earlier
                    then dmul (ddiv (dsub (mean_d later) (mean_d earlier)) (mean_d earlier)) 100
                    else 0)
     \<and> category_trend_d amounts =
           (if length amounts = 1 then 0
            else let earlier = map snd (take (length amounts div 2) amounts);
                     later = map snd (drop (length amounts div 2) amounts)
                 in if 0 < mean_d earlier
                    then dmul (ddiv (dsub (mean_d later) (mean_d earlier)) (mean_d earlier)) 100
                    else 0)"
proof (intro conjI)
  show "trend_d es =
           (if length es = 1 then 0
            else let earlier = map Number_amount (drop (length es - length es div 2) es);
                     later = map Number_amount (take (length es - length es div 2) es)
                 in if 0 < mean_d earlier
                    then dmul (ddiv (dsub (mean_d later) (mean_d earlier)) (mean_d earlier)) 100
                    else 0)"
  proof (cases "length es = 1")
    case True
    then show ?thesis by (simp add: trend_d_single)
  next
    case False
    moreover from assms(1) have "length es \<noteq> 0" by simp
    ultimately have two: "2 \<le> length es" by arith
    from False show ?thesis
      by (simp only: trend_d_def trend_d_halves [OF two] Let_def if_False)
  qed
  show "category_trend_d amounts =
           (if length amounts = 1 then 0
            else let earlier = map snd (take (length amounts div 2) amounts);
                     later = map snd (drop (length amounts div 2) amounts)
                 in if 0 < mean_d earlier
                    then dmul (ddiv (dsub (mean_d later) (mean_d earlier)) (mean_d earlier)) 100
                    else 0)"
  proof (cases "length amounts = 1")
    case True
    then show ?thesis by (simp add: category_trend_d_single)
  next
    case False
    moreover from assms(2) have "length amounts \<noteq> 0" by simp
    ultimately have two: "2 \<le> length amounts" by arith
    let ?h = "length amounts div 2"
    from two have h: "?h \<noteq> 0" "?h < length amounts" by auto
    then have a: "(if length (take ?h amounts) = 0 then 1 else length (take ?h amounts))
                    = length (map snd (take ?h amounts))"
      and b: "(if length (drop ?h amounts) = 0 then 1 else length (drop ?h amounts))
                    = length (map snd (drop ?h amounts))"
      by auto
    show ?thesis
      unfolding category_trend_d_def Let_def halfPoint_def a b
      using False by (simp only: sum_entries_d_foldl mean_d_def if_False)
  qed
qed

theorem trend_estimator_rule_witness:
  "[market_15, market_1] \<noteq> []
   \<and> trend_d [market_15, market_1] = 20
   \<and> category_trend_d [(''Jan 25'', 100), (''Feb 25'', 120)] = 20
   \<and> trend_d [fuel_5] = 0
   \<and> category_trend_d [(''Jan 25'', 50)] = 0"
  using trend_estimator_rule [of "[market_15, market_1]" "[(''Jan 25'', 100), (''Feb 25'', 120)]"]
    trend_estimator_rule [of "[fuel_5]" "[(''Jan 25'', 50)]"]
  by (simp add: market_15_def market_1_def mean_d_def Number_amount_def dadd_def ddiv_def
      dsub_def dmul_def binary64_values)

text \<open>
  The guard is \<open>> 0\<close>, not \<open>= 0\<close>: with a refund of 100 followed by an expense of 300
  the earlier mean is -100, the formula of the specification gives -400 and both models
  of the code give 0.
\<close>

theorem trend_estimator_counterexample:
  "refund_rows \<noteq> []
   \<and> trend_d refund_rows = 0 \<and> trend refund_rows = 0
   \<and> trend_spec (rev (map amount refund_rows)) = - 400"
  by (simp add: refund_rows_def fuel_300_def fuel_refund_def row_def trend_d_def firstHalfAvg_d_def firstHalf_def
      slice_from_end_def halfPoint_def halfAvg_d_def sum_amounts_d_def Number_amount_def
      dadd_def ddiv_def binary64_values trend_def firstHalfAvg_def halfAvg_def sum_amounts_def
      trend_spec_def mean_def)


section \<open>Category totals\<close>

lemma analysisPattern_d_sel:
  "sp_category (analysisPattern_d (k, g)) = k"
  "sp_totalSpent (analysisPattern_d (k, g)) = sum_amounts_d (fst g)"
  "sp_frequency (analysisPattern_d (k, g)) = length (fst g)"
  by (simp_all add: analysisPattern_d_def Let_def)

lemma map_push_sizes:
  "(\<Sum>g\<leftarrow>map_push k e m. length (fst (snd g))) = Suc (\<Sum>g\<leftarrow>m. length (fst (snd g)))"
  by (induction m) auto

lemma categoryMap_sizes: "(\<Sum>g\<leftarrow>categoryMap es. length (fst (snd g))) = length es"
  by (induction es rule: rev_induct)
     (simp_all add: categoryMap_snoc map_push_sizes, simp add: categoryMap_def)

lemma sum_list_sort_key:
  fixes f :: "'a \<Rightarrow> 'b::comm_monoid_add"
  shows "sum_list (map f (sort_key k xs)) = sum_list (map f xs)"
proof -
  have "mset (map f (sort_key k xs)) = mset (map f xs)"
    by (metis mset_map mset_sort)
  then show ?thesis by (metis sum_mset_sum_list)
qed

text \<open>
  Claim C2.  For every sequence of expense rows, grouping by the resolved category name
  (\<open>Uncategorized\<close> for a missing category) partitions the rows: no name has two
  groups, every row's name has a group, a group holds exactly the rows of its name and
  the group sizes add up to the number of rows; the total of a group is the sum of the
  amounts of its rows, added in their order in double arithmetic.  In exact arithmetic
  the group totals add up to the sum of all amounts.
\<close>

theorem category_grouping_totals:
  "distinct (map sp_category (analysisPatterns_d es))
   \<and> set (map sp_category (analysisPatterns_d es)) = categoryName ` set es
   \<and> (\<forall>p \<in> set (analysisPatterns_d es).
         sp_frequency p = length (filter (\<lambda>e. categoryName e = sp_category p) es)
         \<and> sp_totalSpent p = sum_amounts_d (filter (\<lambda>e. categoryName e = sp_category p) es))
   \<and> sum_list (map sp_frequency (analysisPatterns_d es)) = length es
   \<and> sum_list (map sp_totalSpent (analysisPatterns es)) = sum_list (map amount es)"
proof -
  have cat: "map sp_category (map analysisPattern_d m) = map fst m" for m
    by (simp add: analysisPattern_d_def Let_def)
  have "mset (map sp_category (analysisPatterns_d es)) = mset (map fst (categoryMap es))"
    unfolding analysisPatterns_d_def using cat [of "categoryMap es"]
    by (metis mset_map mset_sort)
  then have names: "distinct (map sp_category (analysisPatterns_d es))"
    using categoryMap_distinct [of es] by (metis mset_eq_imp_distinct_iff)
  have keys: "set (map sp_category (analysisPatterns_d es)) = categoryName ` set es"
    using categoryMap_keys [of es]
    by (simp add: analysisPatterns_d_def analysisPattern_d_def Let_def image_image)
  have groups: "sp_frequency p = length (filter (\<lambda>e. categoryName e = sp_category p) es)
         \<and> sp_totalSpent p = sum_amounts_d (filter (\<lambda>e. categoryName e = sp_category p) es)"
    if "p \<in> set (analysisPatterns_d es)" for p
  proof -
    from that obtain k g
      where kg: "(k, g) \<in> set (categoryMap es)" and p: "p = analysisPattern_d (k, g)"
      by (auto simp: analysisPatterns_d_def)
    from categoryMap_groups [OF kg] p show ?thesis
      by (simp add: analysisPattern_d_sel)
  qed
  have "map sp_frequency (map analysisPattern_d m) = map (\<lambda>g. length (fst (snd g))) m" for m
    by (simp add: analysisPattern_d_def Let_def)
  then have sizes: "sum_list (map sp_frequency (analysisPatterns_d es)) = length es"
    unfolding analysisPatterns_d_def
    by (simp only: sum_list_sort_key categoryMap_sizes)
  have "sum_list (map sp_totalSpent (analysisPatterns es))
          = sum_list (map (\<lambda>g. sum_amounts (fst (snd g))) (categoryMap es))"
    unfolding analysisPatterns_def by (simp only: sum_list_sort_key analysisPatterns_totals)
  then have exact: "sum_list (map sp_totalSpent (analysisPatterns es)) = sum_list (map amount es)"
    using categoryMap_total [of es] by (simp add: sum_amounts_sum_list)
  from names keys groups sizes exact show ?thesis
    by blast
qed

lemma categoryMap_penny:
  "categoryMap penny_rows =
     [(''Gas'', ([fuel_1c, fuel_6c], Some gas)),
      (''Groceries'', ([market_1c], Some groceries))]"
  by (simp add: categoryMap_def penny_rows_def fuel_1c_def fuel_6c_def market_1c_def row_def
      categoryName_def groceries_def gas_def)

lemma penny_totals:
  "sum_amounts_d [fuel_1c, fuel_6c] = 5044031582654955 / 72057594037927936"
  "sum_amounts_d [market_1c] = 5764607523034235 / 576460752303423488"
  "sum_amounts_d penny_rows = 5764607523034235 / 72057594037927936"
  by (simp_all add: sum_amounts_d_def penny_rows_def fuel_1c_def fuel_6c_def market_1c_def
      Number_amount_def row_def dadd_def binary64_eval)

lemma penny_patterns:
  "map sp_totalSpent (analysisPatterns_d penny_rows)
     = [5044031582654955 / 72057594037927936, 5764607523034235 / 576460752303423488]"
  unfolding analysisPatterns_d_def categoryMap_penny
  by (simp add: analysisPattern_d_sel penny_totals)

theorem category_grouping_totals_witness:
  "map (\<lambda>p. (sp_category p, sp_frequency p)) (analysisPatterns_d penny_rows)
     = [(''Gas'', 2), (''Groceries'', 1)]
   \<and> sum_list (map sp_frequency (analysisPatterns_d penny_rows)) = 3
   \<and> sum_list (map sp_totalSpent (analysisPatterns penny_rows)) = 8 / 100"
proof -
  have listed: "map (\<lambda>p. (sp_category p, sp_frequency p)) (analysisPatterns_d penny_rows)
     = [(''Gas'', 2), (''Groceries'', 1)]"
    unfolding analysisPatterns_d_def categoryMap_penny
    by (simp add: analysisPattern_d_sel penny_totals)
  have "length penny_rows = 3" "sum_list (map amount penny_rows) = 8 / 100"
    by (simp_all add: penny_rows_def fuel_1c_def fuel_6c_def market_1c_def row_def)
  with category_grouping_totals [of penny_rows] listed show ?thesis
    by simp
qed

text \<open>
  In double arithmetic the totals are not conserved: for the rows Gas 0.01, Groceries
  0.01, Gas 0.06 the group totals are 0.06999999999999999 and 0.01, and neither their
  exact sum nor their double sum is the grand total 0.08 the program stores, nor the sum
  of the decimal amounts.
\<close>

theorem category_totals_counterexample:
  "penny_rows \<noteq> []
   \<and> sum_list (map sp_totalSpent
        (patterns (analyzeSpendingHabits_d (QueryData (Some penny_rows)) initial_state)))
       \<noteq> totalSpending (analyzeSpendingHabits_d (QueryData (Some penny_rows)) initial_state)
   \<and> foldl dadd 0 (map sp_totalSpent
        (patterns (analyzeSpendingHabits_d (QueryData (Some penny_rows)) initial_state)))
       \<noteq> totalSpending (analyzeSpendingHabits_d (QueryData (Some penny_rows)) initial_state)
   \<and> sum_list (map sp_totalSpent
        (patterns (analyzeSpendingHabits_d (QueryData (Some penny_rows)) initial_state)))
       \<noteq> sum_list (map amount penny_rows)"
proof -
  have ne: "penny_rows \<noteq> []" by (simp add: penny_rows_def)
  have exact: "sum_list (map amount penny_rows) = 8 / 100"
    by (simp add: penny_rows_def fuel_1c_def fuel_6c_def market_1c_def row_def)
  from ne show ?thesis
    by (simp add: penny_patterns penny_totals exact dadd_def binary64_eval)
qed


section \<open>The high-spending warning\<close>

lemma highSpending_d_sel:
  "si_type (highSpending_d t c s) = Warning"
  "si_title (highSpending_d t c s) = ''High '' @ c @ '' Spending''"
  "si_amount (highSpending_d t c s) = Some s"
  "si_category (highSpending_d t c s) = Some c"
  by (simp_all add: highSpending_d_def)

lemma high_in_categoryInsights_d:
  "i \<in> set (categoryInsights_d tot (k, g)) \<and> si_type i = Warning
     \<and> si_title i = ''High '' @ c @ '' Spending''
   \<longleftrightarrow> c = k \<and> sum_amounts_d (fst g) > dmul tot (binary64 0.3)
       \<and> i = highSpending_d tot k (sum_amounts_d (fst g))"
  by (auto simp: categoryInsights_d_def Let_def highSpending_d_def increasingSpending_def
      reducedSpending_def)

lemma dailyAverage_d_sel:
  "si_type (dailyAverage_d t) = Info" "si_amount (dailyAverage_d t) = Some (ddiv t 90)"
  by (simp_all add: dailyAverage_d_def)

lemma generatedInsights_d_high:
  "(\<exists>i \<in> set (generatedInsights_d es).
       si_type i = Warning \<and> si_title i = ''High '' @ c @ '' Spending'')
   \<longleftrightarrow> c \<in> categoryName ` set es
       \<and> sum_amounts_d (filter (\<lambda>e. categoryName e = c) es)
           > dmul (sum_amounts_d es) (binary64 0.3)"
  (is "?L \<longleftrightarrow> ?R")
proof
  assume ?L
  then obtain i where i: "i \<in> set (generatedInsights_d es)" "si_type i = Warning"
    "si_title i = ''High '' @ c @ '' Spending''" by blast
  then have "i \<in> set (concat (map (categoryInsights_d (sum_amounts_d es)) (categoryMap es)))"
    by (auto simp: generatedInsights_d_def Let_def dailyAverage_d_sel split: if_splits)
  then obtain k g where kg: "(k, g) \<in> set (categoryMap es)"
    and "i \<in> set (categoryInsights_d (sum_amounts_d es) (k, g))" by auto
  with i high_in_categoryInsights_d [of i "sum_amounts_d es" k g c]
  have "c = k" "sum_amounts_d (fst g) > dmul (sum_amounts_d es) (binary64 0.3)" by auto
  with categoryMap_groups [OF kg] categoryMap_keys [of es] kg show ?R
    by force
next
  assume r: ?R
  then have "c \<in> set (map fst (categoryMap es))" by (simp only: categoryMap_keys)
  then obtain g where kg: "(c, g) \<in> set (categoryMap es)" by auto
  from categoryMap_groups [OF kg]
  have fg: "fst g = filter (\<lambda>e. categoryName e = c) es" by simp
  let ?i = "highSpending_d (sum_amounts_d es) c (sum_amounts_d (fst g))"
  from r have "sum_amounts_d (fst g) > dmul (sum_amounts_d es) (binary64 0.3)"
    by (simp add: fg)
  then have "?i \<in> set (categoryInsights_d (sum_amounts_d es) (c, g))"
    by (simp add: categoryInsights_d_def Let_def)
  with kg have "?i \<in> set (generatedInsights_d es)"
    by (force simp: generatedInsights_d_def Let_def)
  moreover have "si_type ?i = Warning \<and> si_title ?i = ''High '' @ c @ '' Spending''"
    by (simp add: highSpending_d_def)
  ultimately show ?L by blast
qed

lemma generatedInsights_d_high_present:
  assumes "c \<in> categoryName ` set es"
    and "sum_amounts_d (filter (\<lambda>e. categoryName e = c) es)
           > dmul (sum_amounts_d es) (binary64 0.3)"
  shows "highSpending_d (sum_amounts_d es) c (sum_amounts_d (filter (\<lambda>e. categoryName e = c) es))
         \<in> set (generatedInsights_d es)"
proof -
  from assms(1) have "c \<in> set (map fst (categoryMap es))" by (simp only: categoryMap_keys)
  then obtain g where kg: "(c, g) \<in> set (categoryMap es)" by auto
  from categoryMap_groups [OF kg]
  have fg: "fst g = filter (\<lambda>e. categoryName e = c) es" by simp
  let ?i = "highSpending_d (sum_amounts_d es) c (sum_amounts_d (fst g))"
  from assms(2) have "sum_amounts_d (fst g) > dmul (sum_amounts_d es) (binary64 0.3)"
    by (simp add: fg)
  then have "?i \<in> set (categoryInsights_d (sum_amounts_d es) (c, g))"
    by (simp add: categoryInsights_d_def Let_def)
  with kg have "?i \<in> set (generatedInsights_d es)"
    by (force simp: generatedInsights_d_def Let_def)
  then show ?thesis by (simp add: fg)
qed

lemma highSpending_d_percentage:
  "grand \<noteq> 0 \<Longrightarrow>
     Fixed 1 (Some (dmul (ddiv spent grand) 100))
       \<in> set (si_description (highSpending_d grand c spent))"
  by (simp add: highSpending_d_def js_div_d_def)

lemma insights_analyze_d:
  "es \<noteq> [] \<Longrightarrow>
     insights (analyzeSpendingHabits_d (QueryData (Some es)) st) = generatedInsights_d es"
  by simp

text \<open>
  Claim C5.  After a run on a non-empty sequence of rows, for every category whose total
  is strictly above the product grand total * 0.3, as the program computes it in double
  arithmetic, the insight list holds the high-spending insight of that category: of type
  \<open>Warning\<close>, titled \<open>High\<close>, the category name, \<open>Spending\<close>, with the category and
  its total, and with the category's percentage of the grand total in its description.
  For every other name the list holds no warning with that title.  In the scenario the
  warning is there for Groceries (220 of 270) and not for Gas (50 of 270).
\<close>

theorem high_spending_threshold:
  assumes "es \<noteq> []"
  shows "let result = insights (analyzeSpendingHabits_d (QueryData (Some es)) st);
             grand = sum_amounts_d es;
             spent = sum_amounts_d (filter (\<lambda>e. categoryName e = c) es);
             w = highSpending_d grand c spent
         in (c \<in> categoryName ` set es \<and> spent > dmul grand (binary64 0.3) \<longrightarrow>
               w \<in> set result
               \<and> si_type w = Warning \<and> si_title w = ''High '' @ c @ '' Spending''
               \<and> si_category w = Some c \<and> si_amount w = Some spent
               \<and> (grand \<noteq> 0 \<longrightarrow>
                    Fixed 1 (Some (dmul (ddiv spent grand) 100)) \<in> set (si_description w)))
          \<and> (\<not> (c \<in> categoryName ` set es \<and> spent > dmul grand (binary64 0.3)) \<longrightarrow>
               (\<forall>i\<in>set result.
                  \<not> (si_type i = Warning \<and> si_title i = ''High '' @ c @ '' Spending'')))"
  unfolding Let_def insights_analyze_d [OF assms] highSpending_d_sel
  using generatedInsights_d_high [of es c] generatedInsights_d_high_present [of c es]
    highSpending_d_percentage [of "sum_amounts_d es"]
  by blast

lemma scenario_totals_d:
  "sum_amounts_d scenario = 270" "sum_amounts_d [market_15, market_1] = 220"
  "sum_amounts_d [fuel_5] = 50" "dmul 270 (binary64 0.3) = 81"
  by (simp_all add: sum_amounts_d_def scenario_def market_15_def fuel_5_def market_1_def
      Number_amount_def dadd_def dmul_def binary64_eval)

theorem high_spending_threshold_witness:
  "scenario \<noteq> []
   \<and> highSpending_d 270 ''Groceries'' 220
        \<in> set (insights (analyzeSpendingHabits_d (QueryData (Some scenario)) initial_state))
   \<and> si_title (highSpending_d 270 ''Groceries'' 220) = ''High Groceries Spending''
   \<and> highSpending_d 270 ''Gas'' 50
        \<notin> set (insights (analyzeSpendingHabits_d (QueryData (Some scenario)) initial_state))"
proof -
  have ne: "scenario \<noteq> []" by (simp add: scenario_def)
  have groups: "filter (\<lambda>e. categoryName e = ''Groceries'') scenario = [market_15, market_1]"
    "filter (\<lambda>e. categoryName e = ''Gas'') scenario = [fuel_5]"
    "categoryName ` set scenario = {''Groceries'', ''Gas''}"
    by (auto simp: scenario_def market_15_def fuel_5_def market_1_def categoryName_def
        groceries_def gas_def)
  from high_spending_threshold [OF ne, where c = "''Groceries''" and st = initial_state]
    high_spending_threshold [OF ne, where c = "''Gas''" and st = initial_state]
  show ?thesis
    unfolding Let_def groups scenario_totals_d using ne by (auto simp: highSpending_d_def)
qed

text \<open>
  The threshold is the rounded product, so a category at exactly 30% can get the
  warning: Gas 0.90 of a total of 3.00 is compared with 3 * 0.3 = 0.8999999999999999.
\<close>

lemma categoryMap_thirty:
  "categoryMap thirty_percent_rows =
     [(''Gas'', ([fuel_90c], Some gas)), (''Groceries'', ([market_210c], Some groceries))]"
  by (simp add: categoryMap_def thirty_percent_rows_def fuel_90c_def market_210c_def row_def
      categoryName_def groceries_def gas_def)

lemma thirty_totals:
  "sum_amounts_d [fuel_90c] = 8106479329266893 / 9007199254740992"
  "sum_amounts_d thirty_percent_rows = 3"
  "dmul 3 (binary64 0.3) = 2026619832316723 / 2251799813685248"
  by (simp_all add: sum_amounts_d_def thirty_percent_rows_def fuel_90c_def market_210c_def
      Number_amount_def row_def dadd_def dmul_def binary64_eval)

theorem high_spending_counterexample:
  "thirty_percent_rows \<noteq> []
   \<and> categoryName fuel_90c = ''Gas'' \<and> categoryName market_210c = ''Groceries''
   \<and> amount fuel_90c = (amount fuel_90c + amount market_210c) * 0.3
   \<and> highSpending_d 3 ''Gas'' (8106479329266893 / 9007199254740992)
       \<in> set (insights (analyzeSpendingHabits_d (QueryData (Some thirty_percent_rows))
                  initial_state))
   \<and> si_type (highSpending_d 3 ''Gas'' (8106479329266893 / 9007199254740992)) = Warning
   \<and> si_title (highSpending_d 3 ''Gas'' (8106479329266893 / 9007199254740992))
       = ''High Gas Spending''"
proof -
  have ne: "thirty_percent_rows \<noteq> []" by (simp add: thirty_percent_rows_def)
  have share: "categoryName fuel_90c = ''Gas''" "categoryName market_210c = ''Groceries''"
    "amount fuel_90c = (amount fuel_90c + amount market_210c) * 0.3"
    by (simp_all add: fuel_90c_def market_210c_def row_def categoryName_def groceries_def
        gas_def)
  have "highSpending_d 3 ''Gas'' (8106479329266893 / 9007199254740992)
          \<in> set (categoryInsights_d 3 (''Gas'', ([fuel_90c], Some gas)))"
    by (simp add: categoryInsights_d_def Let_def thirty_totals)
  then have "highSpending_d 3 ''Gas'' (8106479329266893 / 9007199254740992)
          \<in> set (generatedInsights_d thirty_percent_rows)"
    unfolding generatedInsights_d_def categoryMap_thirty Let_def thirty_totals
    by simp
  with ne share show ?thesis
    by (simp add: highSpending_d_sel)
qed


section \<open>Recurring bills in double arithmetic\<close>

lemma avgAmount_d_mean: "avgAmount_d amounts = mean_d (map snd amounts)"
  by (simp add: avgAmount_d_def mean_d_def sum_entries_d_foldl)

lemma stdDev_d_population_sd: "stdDev_d amounts = population_sd_d (map snd amounts)"
  by (simp add: stdDev_d_def variance_d_def population_sd_d_def avgAmount_d_mean foldl_map)

lemma binary64_three_tenths: "binary64 0.3 = 5404319552844595 / 18014398509481984"
  by (simp add: binary64_eval)

text \<open>
  Claim C3.  For every monthly series of a bill that is included (at least two months),
  the bill is classified as recurring if and only if the mean of the series is greater
  than 0, its coefficient of variation, the population standard deviation of the whole
  series divided by its mean, in double arithmetic, is strictly below the binary64 number
  0.3, and the series has at least 3 observations.
\<close>

theorem recurring_rule:
  assumes "2 \<le> length amounts"
  shows "isRecurring_d amounts \<longleftrightarrow>
           0 < mean_d (map snd amounts)
           \<and> ddiv (population_sd_d (map snd amounts)) (mean_d (map snd amounts)) < binary64 0.3
           \<and> 3 \<le> length amounts"
  by (auto simp: isRecurring_d_def coefficientOfVariation_d_def stdDev_d_population_sd
      avgAmount_d_mean binary64_three_tenths)

lemma steady_bill_figures:
  "mean_d (map snd steady_bill) = 100" "population_sd_d (map snd steady_bill) = 0"
proof -
  show m: "mean_d (map snd steady_bill) = 100"
    by (simp add: mean_d_def steady_bill_def dadd_def ddiv_def binary64_eval)
  show "population_sd_d (map snd steady_bill) = 0"
    unfolding population_sd_d_def m
    by (simp add: steady_bill_def dsub_def dmul_def dadd_def ddiv_def dsqrt_def binary64_zero)
qed

theorem recurring_rule_witness:
  "2 \<le> length steady_bill \<and> isRecurring_d steady_bill \<and> \<not> isRecurring_d (take 2 steady_bill)"
proof -
  have len: "2 \<le> length steady_bill" "2 \<le> length (take 2 steady_bill)"
    "length steady_bill = 3" "length (take 2 steady_bill) = 2"
    by (simp_all add: steady_bill_def)
  from recurring_rule [OF len(1)] recurring_rule [OF len(2)] show ?thesis
    unfolding steady_bill_figures len(3,4)
    by (simp add: ddiv_def binary64_zero binary64_three_tenths len)
qed


text \<open>
  The mean has to be positive: three months of -100 have standard deviation 0 and mean
  -100, so the quotient is 0, below 0.3, but the code sets the coefficient to 1 and the
  bill is not recurring.
\<close>

theorem recurring_counterexample:
  "2 \<le> length refund_bill \<and> 3 \<le> length refund_bill
   \<and> cv_spec (map snd refund_bill) = Some 0
   \<and> \<not> isRecurring refund_bill
   \<and> \<not> isRecurring_d refund_bill"
proof -
  have "avgAmount_d refund_bill = - 100"
    by (simp add: avgAmount_d_def sum_entries_d_def refund_bill_def dadd_def ddiv_def
        binary64_eval)
  then have "\<not> isRecurring_d refund_bill"
    by (simp add: isRecurring_d_def coefficientOfVariation_d_def binary64_three_tenths)
  moreover have "avgAmount refund_bill = - 100"
    by (simp add: avgAmount_def sum_entries_def refund_bill_def)
  then have "\<not> isRecurring refund_bill"
    by (simp add: isRecurring_def coefficientOfVariation_def)
  moreover have "cv_spec (map snd refund_bill) = Some 0"
    by (simp add: cv_spec_def population_sd_def mean_def refund_bill_def)
  ultimately show ?thesis by (simp add: refund_bill_def)
qed


section \<open>Sign symmetry of the trend\<close>

lemma ddiv_minus_left: "ddiv (- x) y = - ddiv x y"
  unfolding ddiv_def using binary64_minus [of "x / y"] by simp

lemma dmul_minus_left: "dmul (- x) y = - dmul x y"
  unfolding dmul_def using binary64_minus [of "x * y"] by simp

text \<open>
  Claim C7.  For every two series with the same earlier-half average whose differences
  later-half average minus earlier-half average, as the program computes them in double
  arithmetic, are equal in magnitude and opposite in sign, the trends are equal in
  magnitude and opposite in sign.
\<close>

theorem trend_sign_symmetry_rule:
  assumes "firstHalfAvg_d ys = firstHalfAvg_d xs"
    and "dsub (secondHalfAvg_d ys) (firstHalfAvg_d ys)
           = - dsub (secondHalfAvg_d xs) (firstHalfAvg_d xs)"
  shows "trend_d ys = - trend_d xs \<and> \<bar>trend_d ys\<bar> = \<bar>trend_d xs\<bar>"
proof -
  have "trend_d ys = - trend_d xs"
    unfolding trend_d_def assms(2) unfolding assms(1)
    by (simp add: ddiv_minus_left dmul_minus_left)
  then show ?thesis by simp
qed

lemma rising_falling_d:
  "firstHalfAvg_d falling = 100" "secondHalfAvg_d falling = 50"
  "firstHalfAvg_d rising = 100" "secondHalfAvg_d rising = 150"
  by (simp_all add: firstHalfAvg_d_def secondHalfAvg_d_def firstHalf_def secondHalf_def
      slice_from_end_def halfPoint_def halfAvg_d_def sum_amounts_d_def Number_amount_def
      dadd_def ddiv_def falling_def rising_def binary64_eval)

theorem trend_sign_symmetry_rule_witness:
  "trend_d falling = - 50 \<and> trend_d rising = 50"
proof -
  have up: "trend_d rising = 50"
    by (simp add: trend_d_def rising_falling_d dsub_def ddiv_def dmul_def binary64_eval)
  have "firstHalfAvg_d falling = firstHalfAvg_d rising"
    and "dsub (secondHalfAvg_d falling) (firstHalfAvg_d falling)
           = - dsub (secondHalfAvg_d rising) (firstHalfAvg_d rising)"
    by (simp_all add: rising_falling_d dsub_def binary64_eval)
  then have "trend_d falling = - trend_d rising \<and> \<bar>trend_d falling\<bar> = \<bar>trend_d rising\<bar>"
    by (rule trend_sign_symmetry_rule)
  with up show ?thesis by simp
qed


text \<open>
  An increase and a decrease that are equal as decimal amounts need not do: from 0.02
  to 0.03 the trend is 49.999999999999986, from 0.02 to 0.01 it is -50.  Nor do a series
  and its reverse: from 100 to 150 the trend is 50, from 150 to 100 it is -100/3.
\<close>

lemma cents_halves:
  "firstHalfAvg_d cents_up = 5764607523034235 / 288230376151711744"
  "firstHalfAvg_d cents_down = 5764607523034235 / 288230376151711744"
  "secondHalfAvg_d cents_up = 1080863910568919 / 36028797018963968"
  "secondHalfAvg_d cents_down = 5764607523034235 / 576460752303423488"
  by (simp_all add: firstHalfAvg_d_def secondHalfAvg_d_def firstHalf_def secondHalf_def
      slice_from_end_def halfPoint_def halfAvg_d_def sum_amounts_d_def Number_amount_def
      dadd_def ddiv_def cents_up_def cents_down_def fuel_1c_def fuel_2c_def fuel_3c_def row_def
      binary64_eval)

theorem trend_sign_symmetry_counterexample:
  "amount (hd cents_up) - amount (last cents_up) = amount (last cents_down) - amount (hd cents_down)
   \<and> firstHalfAvg_d cents_up = firstHalfAvg_d cents_down
   \<and> trend_d cents_down = - 50
   \<and> trend_d cents_up = 3518437208883199 / 70368744177664
   \<and> \<bar>trend_d cents_up\<bar> \<noteq> \<bar>trend_d cents_down\<bar>
   \<and> trend rising = 50 \<and> trend (rev rising) = - 100 / 3"
proof -
  have decimal: "amount (hd cents_up) - amount (last cents_up)
                   = amount (last cents_down) - amount (hd cents_down)"
    by (simp add: cents_up_def cents_down_def fuel_1c_def fuel_2c_def fuel_3c_def row_def)
  have down: "trend_d cents_down = - 50"
    by (simp add: trend_d_def cents_halves dsub_def ddiv_def dmul_def binary64_eval)
  have up: "trend_d cents_up = 3518437208883199 / 70368744177664"
    by (simp add: trend_d_def cents_halves dsub_def ddiv_def dmul_def binary64_eval)
  have exact: "trend rising = 50" "trend (rev rising) = - 100 / 3"
    by (simp_all add: trend_def firstHalfAvg_def secondHalfAvg_def firstHalf_def secondHalf_def
        slice_from_end_def halfPoint_def halfAvg_def sum_amounts_def rising_def)
  from decimal down up exact show ?thesis
    by (simp add: cents_halves)
qed

end
